theory Spec2Isabelle
  imports Complex_Main
begin

section \<open>Values, exceptions and observable effects\<close>

text \<open>
  The handler of \<^verbatim>\<open>nlp_api.py\<close> receives an event that was decoded from JSON, so
  events, request bodies and the \<^verbatim>\<open>text\<close> value are JSON values. A dict is an
  association list read with \<open>map_of\<close>.
\<close>

datatype json =
    JNull
  | JBool bool
  | JInt int
  | JFloat real
  | JStr string
  | JArr "json list"
  | JObj "(string \<times> json) list"

text \<open>
  An exception, that is an instance of \<^verbatim>\<open>Exception\<close>, which is what the
  \<^verbatim>\<open>except\<close> clauses of the program catch: its class name and the text of
  \<^verbatim>\<open>str(e)\<close>.
\<close>

datatype exn = PyExc string string

fun str_exn :: "exn \<Rightarrow> string" where
  "str_exn (PyExc cls msg) = msg"

definition quote :: "string \<Rightarrow> string" where
  "quote s = CHR 0x27 # s @ [CHR 0x27]"

fun py_type_name :: "json \<Rightarrow> string" where
  "py_type_name JNull = ''NoneType''"
| "py_type_name (JBool b) = ''bool''"
| "py_type_name (JInt i) = ''int''"
| "py_type_name (JFloat r) = ''float''"
| "py_type_name (JStr s) = ''str''"
| "py_type_name (JArr xs) = ''list''"
| "py_type_name (JObj kvs) = ''dict''"

text \<open>
  Everything the program does to the outside world is recorded, in order: what it
  prints, the file-system and object-store calls of the provisioner, and the call of the
  loaded model.
\<close>

datatype event =
    Print string
  | PathExists string
  | Boto3Client
  | Mkdtemp
  | Makedirs string
  | ListObjects string string
  | Download string string string
  | SpacyLoad string
  | ModelCall json

fun is_provisioning_io :: "event \<Rightarrow> bool" where
  "is_provisioning_io (Print s) = False"
| "is_provisioning_io (ModelCall v) = False"
| "is_provisioning_io (PathExists p) = True"
| "is_provisioning_io Boto3Client = True"
| "is_provisioning_io Mkdtemp = True"
| "is_provisioning_io (Makedirs p) = True"
| "is_provisioning_io (ListObjects b p) = True"
| "is_provisioning_io (Download b k p) = True"
| "is_provisioning_io (SpacyLoad p) = True"

text \<open>
  The loaded spaCy pipeline is a callable: applied to the input it raises or yields the
  \<^verbatim>\<open>doc.cats\<close> dictionary. The scores are finite floats; the program only compares
  them (\<^verbatim>\<open>>=\<close>, \<^verbatim>\<open>max\<close>), which is exact, so a score is the real number it denotes.
\<close>

type_synonym model = "json \<Rightarrow> exn + (string \<times> real) list"

text \<open>The two module-level variables, lines 17 and 18.\<close>

record globals =
  nlp_model :: "model option"
  model_loaded :: bool

definition initial_globals :: globals where
  "initial_globals = \<lparr>nlp_model = None, model_loaded = False\<rparr>"

text \<open>
  The libraries and the machine the code runs on, as seen by one invocation:
  \<^verbatim>\<open>os.path.exists\<close>, \<^verbatim>\<open>boto3.client\<close>, \<^verbatim>\<open>tempfile.mkdtemp\<close>, \<^verbatim>\<open>os.makedirs\<close>,
  \<^verbatim>\<open>list_objects_v2\<close> (the keys under \<^verbatim>\<open>Contents\<close>, or \<open>None\<close> when the response
  has no such entry), \<^verbatim>\<open>download_file\<close>, \<^verbatim>\<open>spacy.load\<close> and \<^verbatim>\<open>json.loads\<close>.
\<close>

record env =
  path_exists :: "string \<Rightarrow> bool"
  boto3_client :: "exn option"
  mkdtemp :: "exn + string"
  makedirs :: "string \<Rightarrow> exn option"
  list_objects_v2 :: "string \<Rightarrow> string \<Rightarrow> exn + string list option"
  download_file :: "string \<Rightarrow> string \<Rightarrow> string \<Rightarrow> exn option"
  spacy_load :: "string \<Rightarrow> exn + model"
  json_loads :: "string \<Rightarrow> exn + json"

section \<open>String and path operations of the Python library\<close>

definition startswith :: "string \<Rightarrow> string \<Rightarrow> bool" where
  "startswith s p = (take (length p) s = p)"

definition endswith :: "string \<Rightarrow> string \<Rightarrow> bool" where
  "endswith s p = (length p \<le> length s \<and> drop (length s - length p) s = p)"

text \<open>\<^verbatim>\<open>needle in hay\<close> on two strings.\<close>

fun str_contains :: "string \<Rightarrow> string \<Rightarrow> bool" where
  "str_contains needle [] = (needle = [])"
| "str_contains needle (c # cs) = (startswith (c # cs) needle \<or> str_contains needle cs)"

text \<open>
  \<^verbatim>\<open>s.replace(old, new)\<close>: every non-overlapping occurrence, from the left.
\<close>

function py_replace_ne :: "string \<Rightarrow> string \<Rightarrow> string \<Rightarrow> string" where
  "py_replace_ne old new [] = []"
| "py_replace_ne old new (c # cs) =
     (if old \<noteq> [] \<and> startswith (c # cs) old
      then new @ py_replace_ne old new (drop (length old) (c # cs))
      else c # py_replace_ne old new cs)"
  by pat_completeness auto
termination
  by (relation "measure (\<lambda>(old, new, s). length s)") auto

definition py_replace :: "string \<Rightarrow> string \<Rightarrow> string \<Rightarrow> string" where
  "py_replace s old new =
     (if old = [] then new @ concat (map (\<lambda>c. c # new) s) else py_replace_ne old new s)"

text \<open>\<^verbatim>\<open>posixpath.join\<close> of two components and \<^verbatim>\<open>posixpath.dirname\<close>.\<close>

definition os_path_join :: "string \<Rightarrow> string \<Rightarrow> string" where
  "os_path_join a b =
     (if startswith b ''/'' then b
      else if a = [] \<or> endswith a ''/'' then a @ b
      else a @ ''/'' @ b)"

fun rstrip_slash :: "string \<Rightarrow> string" where
  "rstrip_slash s = rev (dropWhile (\<lambda>c. c = CHR ''/'') (rev s))"

definition os_path_dirname :: "string \<Rightarrow> string" where
  "os_path_dirname p =
     (let head = rev (dropWhile (\<lambda>c. c \<noteq> CHR ''/'') (rev p))
      in if head \<noteq> [] \<and> \<not> list_all (\<lambda>c. c = CHR ''/'') head then rstrip_slash head else head)"

section \<open>Membership and subscription on decoded JSON\<close>

text \<open>
  \<^verbatim>\<open>k in x\<close> for a string \<open>k\<close>: a key test on a dict, an element test on a list, a
  substring test on a string, and a \<^verbatim>\<open>TypeError\<close> on anything else. \<^verbatim>\<open>x[k]\<close>
  succeeds on a dict that has the key only. The wording of the interpreter's messages is
  CPython's.
\<close>

fun py_in :: "string \<Rightarrow> json \<Rightarrow> exn + bool" where
  "py_in k (JObj kvs) = Inr (k \<in> set (map fst kvs))"
| "py_in k (JArr xs) = Inr (JStr k \<in> set xs)"
| "py_in k (JStr s) = Inr (str_contains k s)"
| "py_in k v =
     Inl (PyExc ''TypeError'' (''argument of type '' @ quote (py_type_name v) @ '' is not iterable''))"

fun py_getitem :: "json \<Rightarrow> string \<Rightarrow> exn + json" where
  "py_getitem (JObj kvs) k =
     (case map_of kvs k of
        None \<Rightarrow> Inl (PyExc ''KeyError'' (quote k))
      | Some v \<Rightarrow> Inr v)"
| "py_getitem (JArr xs) k =
     Inl (PyExc ''TypeError'' ''list indices must be integers or slices, not str'')"
| "py_getitem (JStr s) k = Inl (PyExc ''TypeError'' ''string indices must be integers'')"
| "py_getitem v k =
     Inl (PyExc ''TypeError'' (quote (py_type_name v) @ '' object is not subscriptable''))"

text \<open>\<^verbatim>\<open>json.loads(x)\<close>: the library parses a string and rejects every other value.\<close>

fun py_json_loads :: "env \<Rightarrow> json \<Rightarrow> exn + json" where
  "py_json_loads env (JStr s) = json_loads env s"
| "py_json_loads env v =
     Inl (PyExc ''TypeError''
       (''the JSON object must be str, bytes or bytearray, not '' @ py_type_name v))"

section \<open>The model provisioner\<close>

definition bucket_name :: string where
  "bucket_name = ''toxic-chat-classifier''"

definition model_prefix :: string where
  "model_prefix = ''toxic_chat_model_full/''"

text \<open>
  The download loop of \<^verbatim>\<open>load_model_from_s3\<close> (lines 48 to 59) over the listed keys.
  It stops at the first call that raises.
\<close>

fun download_all :: "env \<Rightarrow> string \<Rightarrow> string list \<Rightarrow> exn option \<times> event list" where
  "download_all env model_path [] = (None, [])"
| "download_all env model_path (key # keys) =
     (if \<not> endswith key ''/'' then
        let relative_path = py_replace key model_prefix '''';
            local_file_path = os_path_join model_path relative_path;
            d = os_path_dirname local_file_path
        in (case makedirs env d of
              Some e \<Rightarrow> (Some e, [Makedirs d])
            | None \<Rightarrow>
                (case download_file env bucket_name key local_file_path of
                   Some e \<Rightarrow> (Some e, [Makedirs d, Download bucket_name key local_file_path])
                 | None \<Rightarrow>
                     (case download_all env model_path keys of
                        (r, evs) \<Rightarrow>
                          (r, Makedirs d # Download bucket_name key local_file_path # evs))))
      else download_all env model_path keys)"

text \<open>The directory the remote objects are mirrored into, lines 37 and 38.\<close>

definition download_dir :: "string \<Rightarrow> string" where
  "download_dir temp_dir = os_path_join temp_dir ''toxic_chat_model_full''"

text \<open>The body of the \<^verbatim>\<open>try\<close> of \<^verbatim>\<open>load_model_from_s3\<close>, lines 42 to 63.\<close>

definition fetch_and_load :: "env \<Rightarrow> string \<Rightarrow> (exn + model) \<times> event list" where
  "fetch_and_load env model_path =
     (case list_objects_v2 env bucket_name model_prefix of
        Inl e \<Rightarrow> (Inl e, [ListObjects bucket_name model_prefix])
      | Inr None \<Rightarrow>
          (Inl (PyExc ''Exception'' (''No files found in '' @ model_prefix)),
           [ListObjects bucket_name model_prefix])
      | Inr (Some keys) \<Rightarrow>
          (case download_all env model_path keys of
             (Some e, evs) \<Rightarrow> (Inl e, ListObjects bucket_name model_prefix # evs)
           | (None, evs) \<Rightarrow>
               (case spacy_load env model_path of
                  Inl e \<Rightarrow>
                    (Inl e, ListObjects bucket_name model_prefix # evs @ [SpacyLoad model_path])
                | Inr nlp \<Rightarrow>
                    (Inr nlp, ListObjects bucket_name model_prefix # evs @ [SpacyLoad model_path]))))"

definition load_model_from_s3 :: "env \<Rightarrow> (exn + model) \<times> event list" where
  "load_model_from_s3 env =
     (case boto3_client env of
        Some e \<Rightarrow> (Inl e, [Boto3Client])
      | None \<Rightarrow>
          (case mkdtemp env of
             Inl e \<Rightarrow> (Inl e, [Boto3Client, Mkdtemp])
           | Inr temp_dir \<Rightarrow>
               let model_path = download_dir temp_dir
               in (case makedirs env model_path of
                     Some e \<Rightarrow> (Inl e, [Boto3Client, Mkdtemp, Makedirs model_path])
                   | None \<Rightarrow>
                       (case fetch_and_load env model_path of
                          (Inl e, evs) \<Rightarrow>
                            (Inl e, [Boto3Client, Mkdtemp, Makedirs model_path] @ evs
                                    @ [Print (''Error loading model: '' @ str_exn e)])
                        | (Inr nlp, evs) \<Rightarrow>
                            (Inr nlp, [Boto3Client, Mkdtemp, Makedirs model_path] @ evs)))))"

text \<open>The path whose \<^verbatim>\<open>config.cfg\<close> is probed, line 79, and the probed file, line 80.\<close>

definition probe_dir :: string where
  "probe_dir = ''/tmp/toxic_chat_model_full''"

definition marker_file :: string where
  "marker_file = os_path_join probe_dir ''config.cfg''"

text \<open>The test of line 73.\<close>

definition is_loaded :: "globals \<Rightarrow> bool" where
  "is_loaded g = (model_loaded g \<and> nlp_model g \<noteq> None)"

definition load_model :: "env \<Rightarrow> globals \<Rightarrow> (exn + model option) \<times> globals \<times> event list" where
  "load_model env g =
     (if model_loaded g \<and> nlp_model g \<noteq> None then
        (Inr (nlp_model g), g, [Print ''Using cached model''])
      else if \<not> path_exists env marker_file then
        (case load_model_from_s3 env of
           (Inl e, evs) \<Rightarrow>
             (Inl e, g,
              [PathExists marker_file, Print ''Model not found locally, downloading from S3...'']
              @ evs @ [Print (''Error loading model: '' @ str_exn e)])
         | (Inr nlp, evs) \<Rightarrow>
             let g1 = g\<lparr>nlp_model := Some nlp\<rparr>;
                 g2 = g1\<lparr>model_loaded := True\<rparr>
             in (Inr (nlp_model g2), g2,
                 [PathExists marker_file, Print ''Model not found locally, downloading from S3...'']
                 @ evs @ [Print ''Model loaded successfully!'']))
      else
        let g2 = g\<lparr>model_loaded := True\<rparr>
        in (Inr (nlp_model g2), g2,
            [PathExists marker_file, Print ''Found existing model in /tmp'',
             Print ''Model loaded successfully!'']))"

section \<open>Prediction and the request handler\<close>

record prediction =
  p_text :: json
  is_toxic :: bool
  toxic_score :: real
  not_toxic_score :: real
  confidence :: real

definition cats_get :: "(string \<times> real) list \<Rightarrow> string \<Rightarrow> exn + real" where
  "cats_get cats k =
     (case map_of cats k of None \<Rightarrow> Inl (PyExc ''KeyError'' (quote k)) | Some v \<Rightarrow> Inr v)"

text \<open>\<^verbatim>\<open>max(a, b)\<close> of Python: the second argument only when it is greater.\<close>

definition py_max :: "real \<Rightarrow> real \<Rightarrow> real" where
  "py_max a b = (if b > a then b else a)"

definition predict_toxicity :: "globals \<Rightarrow> json \<Rightarrow> (exn + prediction) \<times> event list" where
  "predict_toxicity g txt =
     (case nlp_model g of
        None \<Rightarrow> (Inl (PyExc ''Exception'' ''Model not loaded''), [])
      | Some nlp \<Rightarrow>
          (case (case nlp txt of
                   Inl e \<Rightarrow> Inl e
                 | Inr cats \<Rightarrow>
                     (case cats_get cats ''TOXIC'' of
                        Inl e \<Rightarrow> Inl e
                      | Inr t \<Rightarrow>
                          (case cats_get cats ''NOT_TOXIC'' of
                             Inl e \<Rightarrow> Inl e
                           | Inr n \<Rightarrow>
                               Inr \<lparr>p_text = txt, is_toxic = (t \<ge> 0.5), toxic_score = t,
                                    not_toxic_score = n, confidence = py_max t n\<rparr>))) of
             Inl e \<Rightarrow> (Inl e, [ModelCall txt, Print (''Error in prediction: '' @ str_exn e)])
           | Inr r \<Rightarrow> (Inr r, [ModelCall txt])))"

text \<open>
  A response. Its body is kept as the value that is handed to \<^verbatim>\<open>json.dumps\<close>, which
  serialises every value of type \<open>json\<close>.
\<close>

record response =
  statusCode :: nat
  headers :: "(string \<times> string) list"
  body :: json

definition std_headers :: "(string \<times> string) list" where
  "std_headers = [(''Content-Type'', ''application/json''), (''Access-Control-Allow-Origin'', ''*'')]"

definition prediction_json :: "prediction \<Rightarrow> json" where
  "prediction_json r =
     JObj [(''text'', p_text r), (''is_toxic'', JBool (is_toxic r)),
           (''toxic_score'', JFloat (toxic_score r)),
           (''not_toxic_score'', JFloat (not_toxic_score r)),
           (''confidence'', JFloat (confidence r))]"

text \<open>Lines 101 to 107: the request body of an event.\<close>

definition parse_body :: "env \<Rightarrow> json \<Rightarrow> exn + json" where
  "parse_body env ev =
     (case py_in ''body'' ev of
        Inl e \<Rightarrow> Inl e
      | Inr True \<Rightarrow> (case py_getitem ev ''body'' of Inl e \<Rightarrow> Inl e | Inr b \<Rightarrow> py_json_loads env b)
      | Inr False \<Rightarrow> Inr ev)"

text \<open>Lines 109 to 137, on the request body: what the \<^verbatim>\<open>try\<close> returns or raises.\<close>

definition handle_body :: "env \<Rightarrow> globals \<Rightarrow> json \<Rightarrow> (exn + response) \<times> globals \<times> event list" where
  "handle_body env g b =
     (case py_in ''text'' b of
        Inl e \<Rightarrow> (Inl e, g, [])
      | Inr False \<Rightarrow>
          (Inr \<lparr>statusCode = 400, headers = std_headers,
                body = JObj [(''error'', JStr ''Missing required field: text'')]\<rparr>, g, [])
      | Inr True \<Rightarrow>
          (case py_getitem b ''text'' of
             Inl e \<Rightarrow> (Inl e, g, [])
           | Inr txt \<Rightarrow>
               (case load_model env g of
                  (Inl e, g1, evs1) \<Rightarrow> (Inl e, g1, evs1)
                | (Inr h, g1, evs1) \<Rightarrow>
                    (case predict_toxicity g1 txt of
                       (Inl e, evs2) \<Rightarrow> (Inl e, g1, evs1 @ evs2)
                     | (Inr r, evs2) \<Rightarrow>
                         (Inr \<lparr>statusCode = 200, headers = std_headers,
                               body = prediction_json r\<rparr>, g1, evs1 @ evs2)))))"

definition lambda_handler :: "env \<Rightarrow> globals \<Rightarrow> json \<Rightarrow> response \<times> globals \<times> event list" where
  "lambda_handler env g ev =
     (case (case parse_body env ev of
              Inl e \<Rightarrow> (Inl e, g, [])
            | Inr b \<Rightarrow> handle_body env g b) of
        (Inl e, g1, evs) \<Rightarrow>
          (\<lparr>statusCode = 500, headers = std_headers,
            body = JObj [(''error'', JStr (str_exn e)), (''message'', JStr ''Internal server error'')]\<rparr>,
           g1, evs @ [Print (''Lambda error: '' @ str_exn e)])
      | (Inr resp, g1, evs) \<Rightarrow> (resp, g1, evs))"

text \<open>
  One process serving a sequence of invocations, each with its own surroundings: the
  globals of one invocation are those the previous one left.
\<close>

fun serve :: "globals \<Rightarrow> (env \<times> json) list \<Rightarrow> response list \<times> globals \<times> event list" where
  "serve g [] = ([], g, [])"
| "serve g ((env, ev) # rest) =
     (case lambda_handler env g ev of
        (resp, g1, evs1) \<Rightarrow>
          (case serve g1 rest of
             (resps, g2, evs2) \<Rightarrow> (resp # resps, g2, evs1 @ evs2)))"

section \<open>Concrete surroundings\<close>

text \<open>
  A pipeline that scores every string the same way and rejects anything that is not a
  string.
\<close>

definition demo_model :: model where
  "demo_model v =
     (case v of
        JStr s \<Rightarrow> Inr [(''TOXIC'', 9 / 10), (''NOT_TOXIC'', 1 / 10)]
      | _ \<Rightarrow> Inl (PyExc ''ValueError'' ''Expected a string as input''))"

text \<open>
  A cold start in which every call succeeds: no marker file, three objects under the
  prefix, the first of them the folder entry.
\<close>

definition cold_env :: env where
  "cold_env =
     \<lparr>path_exists = (\<lambda>p. False),
      boto3_client = None,
      mkdtemp = Inr ''/tmp/tmpa1b2c3d4'',
      makedirs = (\<lambda>p. None),
      list_objects_v2 = (\<lambda>b p. Inr (Some [''toxic_chat_model_full/'',
         ''toxic_chat_model_full/config.cfg'', ''toxic_chat_model_full/textcat/model''])),
      download_file = (\<lambda>b k p. None),
      spacy_load = (\<lambda>p. Inr demo_model),
      json_loads = (\<lambda>s. if s = ''{}'' then Inr (JObj [])
                          else Inl (PyExc ''JSONDecodeError'' ''Expecting value''))\<rparr>"

text \<open>The same machine with the marker file in place.\<close>

definition warm_env :: env where
  "warm_env = cold_env\<lparr>path_exists := (\<lambda>p. p = ''/tmp/toxic_chat_model_full/config.cfg'')\<rparr>"

text \<open>The four ways the fetch can fail.\<close>

definition listing_fails_env :: env where
  "listing_fails_env =
     cold_env\<lparr>list_objects_v2 := (\<lambda>b p. Inl (PyExc ''ClientError'' ''AccessDenied''))\<rparr>"

definition empty_prefix_env :: env where
  "empty_prefix_env = cold_env\<lparr>list_objects_v2 := (\<lambda>b p. Inr None)\<rparr>"

definition download_fails_env :: env where
  "download_fails_env =
     cold_env\<lparr>download_file := (\<lambda>b k p. if k = ''toxic_chat_model_full/textcat/model''
                                          then Some (PyExc ''ClientError'' ''Not Found'') else None)\<rparr>"

definition spacy_fails_env :: env where
  "spacy_fails_env = cold_env\<lparr>spacy_load := (\<lambda>p. Inl (PyExc ''OSError'' ''[E053] Could not read config file''))\<rparr>"

text \<open>A machine whose \<^verbatim>\<open>json.loads\<close> decodes the text \<^verbatim>\<open>null\<close>.\<close>

definition null_body_env :: env where
  "null_body_env =
     cold_env\<lparr>json_loads := (\<lambda>s. if s = ''null'' then Inr JNull
                                  else Inl (PyExc ''JSONDecodeError'' ''Expecting value''))\<rparr>"

text \<open>The globals after a successful first load.\<close>

definition loaded_globals :: globals where
  "loaded_globals = \<lparr>nlp_model = Some demo_model, model_loaded = True\<rparr>"

section \<open>Facts about the provisioner\<close>

lemma load_model_raises:
  assumes "load_model env g = (Inl e, g', evs)"
  shows "g' = g" and "\<not> is_loaded g" and "\<not> path_exists env marker_file"
    and "fst (load_model_from_s3 env) = Inl e"
  using assms
  by (auto simp: load_model_def is_loaded_def Let_def split: if_splits prod.splits sum.splits)

lemma load_model_cached:
  assumes "is_loaded g"
  shows "load_model env g = (Inr (nlp_model g), g, [Print ''Using cached model''])"
  using assms by (simp add: load_model_def is_loaded_def)

lemma load_model_returns_global:
  assumes "load_model env g = (Inr h, g1, evs)"
  shows "nlp_model g1 = h"
  using assms
  by (auto simp: load_model_def Let_def split: if_splits prod.splits sum.splits)

lemma load_model_success_sets_flag:
  assumes "load_model env g = (Inr h, g1, evs)"
  shows "model_loaded g1"
  using assms
  by (auto simp: load_model_def Let_def split: if_splits prod.splits sum.splits)

lemma load_model_leaves_events: "snd (snd (load_model env g)) \<noteq> []"
  by (auto simp: load_model_def Let_def split: prod.splits sum.splits)

text \<open>Every run of the provisioner starts with the cache line or with the probe.\<close>

lemma load_model_first_event:
  "\<exists>tl. snd (snd (load_model env g)) = Print ''Using cached model'' # tl
        \<or> snd (snd (load_model env g)) = PathExists marker_file # tl"
  by (auto simp: load_model_def Let_def split: prod.splits sum.splits)

lemma load_model_cold_events:
  assumes "\<not> is_loaded g" and "\<not> path_exists env marker_file"
  shows "\<exists>tl. snd (snd (load_model env g)) =
           PathExists marker_file # Print ''Model not found locally, downloading from S3...''
             # snd (load_model_from_s3 env) @ tl"
  using assms
  by (auto simp: load_model_def is_loaded_def Let_def split: prod.splits sum.splits)

lemma load_model_cold_result:
  assumes "\<not> is_loaded g" and "\<not> path_exists env marker_file"
  shows "fst (load_model env g) =
           (case fst (load_model_from_s3 env) of Inl e \<Rightarrow> Inl e | Inr nlp \<Rightarrow> Inr (Some nlp))"
  using assms
  by (auto simp: load_model_def is_loaded_def Let_def split: prod.splits sum.splits)

lemma load_model_from_s3_fetch:
  assumes "boto3_client env = None" and "mkdtemp env = Inr d"
    and "makedirs env (download_dir d) = None"
  shows "fst (load_model_from_s3 env) = fst (fetch_and_load env (download_dir d))"
  using assms
  by (auto simp: load_model_from_s3_def Let_def split: prod.splits sum.splits)

lemma download_all_raises:
  assumes "key \<in> set keys" and "\<not> endswith key ''/''"
    and "download_file env bucket_name key
           (os_path_join mp (py_replace key model_prefix '''')) = Some e"
  shows "fst (download_all env mp keys) \<noteq> None"
  using assms
proof (induction keys)
  case Nil
  then show ?case by simp
next
  case (Cons k ks)
  show ?case
  proof (cases "k = key")
    case True
    with Cons.prems show ?thesis
      by (auto simp: Let_def split: option.splits prod.splits)
  next
    case False
    with Cons have "fst (download_all env mp ks) \<noteq> None" by simp
    then show ?thesis
      by (auto simp: Let_def split: option.splits prod.splits)
  qed
qed

lemma fetch_listing_raises:
  "list_objects_v2 env bucket_name model_prefix = Inl e \<Longrightarrow>
   fst (fetch_and_load env mp) = Inl e"
  by (simp add: fetch_and_load_def)

lemma fetch_no_contents:
  "list_objects_v2 env bucket_name model_prefix = Inr None \<Longrightarrow>
   fst (fetch_and_load env mp) =
     Inl (PyExc ''Exception'' ''No files found in toxic_chat_model_full/'')"
  by (simp add: fetch_and_load_def model_prefix_def)

lemma fetch_download_raises:
  "list_objects_v2 env bucket_name model_prefix = Inr (Some keys) \<Longrightarrow>
   fst (download_all env mp keys) = Some e \<Longrightarrow> fst (fetch_and_load env mp) = Inl e"
  by (auto simp: fetch_and_load_def split: prod.splits option.splits)

lemma fetch_spacy_raises:
  "list_objects_v2 env bucket_name model_prefix = Inr (Some keys) \<Longrightarrow>
   fst (download_all env mp keys) = None \<Longrightarrow> spacy_load env mp = Inl e \<Longrightarrow>
   fst (fetch_and_load env mp) = Inl e"
  by (auto simp: fetch_and_load_def split: prod.splits option.splits)

lemma cold_load_is_fetch:
  assumes "\<not> is_loaded g" and "\<not> path_exists env marker_file"
    and "boto3_client env = None" and "mkdtemp env = Inr d"
    and "makedirs env (download_dir d) = None"
    and "fst (fetch_and_load env (download_dir d)) = Inl e"
  shows "fst (load_model env g) = Inl e"
  using load_model_cold_result [OF assms(1,2)] load_model_from_s3_fetch [OF assms(3,4,5)] assms(6)
  by simp

text \<open>No step of the provisioner calls the model.\<close>

lemma download_all_no_model_call:
  "download_all env mp keys = (r, evs) \<Longrightarrow> ModelCall x \<notin> set evs"
proof (induction keys arbitrary: r evs)
  case Nil
  then show ?case by simp
next
  case (Cons k ks)
  obtain r' evs' where rest: "download_all env mp ks = (r', evs')"
    by (cases "download_all env mp ks")
  from Cons.IH [OF rest] have "ModelCall x \<notin> set evs'" .
  with Cons.prems rest show ?case
    by (auto simp: Let_def split: if_splits option.splits)
qed

lemma fetch_and_load_no_model_call:
  "fetch_and_load env mp = (r, evs) \<Longrightarrow> ModelCall x \<notin> set evs"
  by (auto simp: fetch_and_load_def split: sum.splits option.splits prod.splits
           dest: download_all_no_model_call)

lemma load_model_from_s3_no_model_call:
  "load_model_from_s3 env = (r, evs) \<Longrightarrow> ModelCall x \<notin> set evs"
  by (auto simp: load_model_from_s3_def Let_def split: sum.splits option.splits prod.splits
           dest: fetch_and_load_no_model_call)

lemma load_model_no_model_call:
  "load_model env g = (r, g1, evs) \<Longrightarrow> ModelCall x \<notin> set evs"
  by (auto simp: load_model_def Let_def split: if_splits sum.splits prod.splits
           dest: load_model_from_s3_no_model_call)

section \<open>Facts about prediction and the handler\<close>

lemma py_max_is_max: "py_max a b = max a b"
  by (simp add: py_max_def max_def)

lemma predict_toxicity_result:
  assumes "predict_toxicity g txt = (Inr r, evs)"
  shows "\<exists>nlp cats t n. nlp_model g = Some nlp \<and> nlp txt = Inr cats
           \<and> map_of cats ''TOXIC'' = Some t \<and> map_of cats ''NOT_TOXIC'' = Some n
           \<and> r = \<lparr>p_text = txt, is_toxic = (t \<ge> 0.5), toxic_score = t,
                    not_toxic_score = n, confidence = py_max t n\<rparr>
           \<and> evs = [ModelCall txt]"
  using assms
  by (auto simp: predict_toxicity_def cats_get_def split: option.splits sum.splits)

lemma predict_toxicity_events:
  assumes "predict_toxicity g v = (r, evs)" and "e \<in> set evs"
  shows "e = ModelCall v \<or> (\<exists>s. e = Print s)"
  using assms
  by (auto simp: predict_toxicity_def split: option.splits sum.splits)

lemma predict_toxicity_no_provisioning:
  assumes "predict_toxicity g v = (r, evs)" and "e \<in> set evs"
  shows "\<not> is_provisioning_io e"
  using predict_toxicity_events [OF assms] by auto

lemma predict_toxicity_calls_model:
  assumes "nlp_model g = Some nlp"
  shows "ModelCall v \<in> set (snd (predict_toxicity g v))"
  using assms
  by (auto simp: predict_toxicity_def split: option.splits sum.splits)

text \<open>
  Unless the membership test of line 109 finds \<^verbatim>\<open>text\<close>, the handler returns or raises
  before it reaches the provisioner.
\<close>

lemma handle_body_without_text_is_silent:
  assumes "py_in ''text'' b \<noteq> Inr True"
  shows "snd (handle_body env g b) = (g, [])"
  using assms by (auto simp: handle_body_def split: sum.splits bool.splits)

lemma handle_body_loaded:
  assumes "is_loaded g" and "handle_body env g b = (r, g1, evs)"
  shows "g1 = g \<and> (\<forall>e \<in> set evs. \<not> is_provisioning_io e)"
  using assms
  by (auto simp: handle_body_def load_model_cached
           split: sum.splits bool.splits prod.splits
           dest: predict_toxicity_no_provisioning)

lemma lambda_handler_loaded:
  assumes "is_loaded g" and "lambda_handler env g ev = (r, g1, evs)"
  shows "g1 = g \<and> (\<forall>e \<in> set evs. \<not> is_provisioning_io e)"
  using assms handle_body_loaded [OF assms(1)]
  by (auto simp: lambda_handler_def split: sum.splits prod.splits)

lemma serve_loaded:
  assumes "is_loaded g" and "serve g invs = (rs, g1, evs)"
  shows "g1 = g \<and> (\<forall>e \<in> set evs. \<not> is_provisioning_io e)"
  using assms
proof (induction invs arbitrary: rs g1 evs)
  case Nil
  then show ?case by simp
next
  case (Cons a invs)
  obtain env ev where a: "a = (env, ev)" by (cases a)
  obtain r g2 evs1 where h: "lambda_handler env g ev = (r, g2, evs1)"
    by (cases "lambda_handler env g ev")
  obtain rs' g3 evs2 where s: "serve g2 invs = (rs', g3, evs2)"
    by (cases "serve g2 invs")
  from lambda_handler_loaded [OF Cons.prems(1) h]
  have g2: "g2 = g" and e1: "\<forall>e \<in> set evs1. \<not> is_provisioning_io e" by auto
  from Cons.IH [OF Cons.prems(1)] s g2
  have "g3 = g \<and> (\<forall>e \<in> set evs2. \<not> is_provisioning_io e)" by simp
  with Cons.prems(2) a h s e1 show ?case by auto
qed

section \<open>The claims\<close>

subsection \<open>Prediction\<close>

text \<open>
  C5. Whenever \<^verbatim>\<open>predict_toxicity\<close> returns a result, its \<^verbatim>\<open>confidence\<close> field is
  the maximum of its \<^verbatim>\<open>toxic_score\<close> and \<^verbatim>\<open>not_toxic_score\<close> fields, and these two
  are the entries \<^verbatim>\<open>TOXIC\<close> and \<^verbatim>\<open>NOT_TOXIC\<close> that the loaded model produced for the
  input.
\<close>

theorem confidence_is_max_of_scores:
  assumes "predict_toxicity g txt = (Inr r, evs)"
  shows "confidence r = max (toxic_score r) (not_toxic_score r)
         \<and> (\<exists>nlp cats. nlp_model g = Some nlp \<and> nlp txt = Inr cats
               \<and> map_of cats ''TOXIC'' = Some (toxic_score r)
               \<and> map_of cats ''NOT_TOXIC'' = Some (not_toxic_score r))"
proof -
  from predict_toxicity_result [OF assms]
  obtain nlp cats t n where m: "nlp_model g = Some nlp" "nlp txt = Inr cats"
    and c: "map_of cats ''TOXIC'' = Some t" "map_of cats ''NOT_TOXIC'' = Some n"
    and r: "r = \<lparr>p_text = txt, is_toxic = (t \<ge> 0.5), toxic_score = t,
                  not_toxic_score = n, confidence = py_max t n\<rparr>"
    by blast
  from r have "confidence r = max (toxic_score r) (not_toxic_score r)"
    by (simp add: py_max_is_max)
  moreover from r c have "map_of cats ''TOXIC'' = Some (toxic_score r)"
    and "map_of cats ''NOT_TOXIC'' = Some (not_toxic_score r)" by simp_all
  ultimately show ?thesis using m by blast
qed

theorem confidence_is_max_of_scores_witness:
  "predict_toxicity loaded_globals (JStr ''some text'')
     = (Inr \<lparr>p_text = JStr ''some text'', is_toxic = True, toxic_score = 9 / 10,
              not_toxic_score = 1 / 10, confidence = 9 / 10\<rparr>,
        [ModelCall (JStr ''some text'')])
   \<and> (9 / 10 :: real) = max (9 / 10) (1 / 10)"
proof -
  have run: "predict_toxicity loaded_globals (JStr ''some text'')
     = (Inr \<lparr>p_text = JStr ''some text'', is_toxic = True, toxic_score = 9 / 10,
              not_toxic_score = 1 / 10, confidence = 9 / 10\<rparr>,
        [ModelCall (JStr ''some text'')])"
    by (simp add: predict_toxicity_def loaded_globals_def demo_model_def cats_get_def py_max_def)
  from confidence_is_max_of_scores [OF run] show ?thesis using run by simp
qed

text \<open>
  C6. Whenever \<^verbatim>\<open>predict_toxicity\<close> returns a result, its \<^verbatim>\<open>is_toxic\<close> field is true
  exactly when its \<^verbatim>\<open>toxic_score\<close> field is at least 0.5; this holds for every score,
  so for every score between 0 and 1.
\<close>

theorem is_toxic_iff_score_at_least_half:
  assumes "predict_toxicity g txt = (Inr r, evs)"
  shows "is_toxic r \<longleftrightarrow> toxic_score r \<ge> 0.5"
proof -
  from predict_toxicity_result [OF assms]
  obtain t n where "r = \<lparr>p_text = txt, is_toxic = (t \<ge> 0.5), toxic_score = t,
                          not_toxic_score = n, confidence = py_max t n\<rparr>"
    by blast
  then show ?thesis by simp
qed

theorem is_toxic_iff_score_at_least_half_witness:
  "predict_toxicity loaded_globals (JStr ''hello'')
     = (Inr \<lparr>p_text = JStr ''hello'', is_toxic = True, toxic_score = 9 / 10,
              not_toxic_score = 1 / 10, confidence = 9 / 10\<rparr>,
        [ModelCall (JStr ''hello'')])
   \<and> (True \<longleftrightarrow> (9 / 10 :: real) \<ge> 0.5)"
proof -
  have run: "predict_toxicity loaded_globals (JStr ''hello'')
     = (Inr \<lparr>p_text = JStr ''hello'', is_toxic = True, toxic_score = 9 / 10,
              not_toxic_score = 1 / 10, confidence = 9 / 10\<rparr>,
        [ModelCall (JStr ''hello'')])"
    by (simp add: predict_toxicity_def loaded_globals_def demo_model_def cats_get_def py_max_def)
  from is_toxic_iff_score_at_least_half [OF run] show ?thesis using run by simp
qed

subsection \<open>The response contract\<close>

text \<open>
  C9. For every event, in every state and surroundings, \<^verbatim>\<open>lambda_handler\<close> returns a
  response: whatever is raised inside its \<^verbatim>\<open>try\<close> is turned into the 500 response by
  the \<^verbatim>\<open>except\<close> clause. The status code of the response is 200, 400 or 500, and its
  headers are \<^verbatim>\<open>Content-Type: application/json\<close> and
  \<^verbatim>\<open>Access-Control-Allow-Origin: *\<close> on every path.
\<close>

theorem lambda_handler_response_contract:
  "statusCode (fst (lambda_handler env g ev)) \<in> {200, 400, 500}
   \<and> headers (fst (lambda_handler env g ev)) =
       [(''Content-Type'', ''application/json''), (''Access-Control-Allow-Origin'', ''*'')]"
  by (auto simp: lambda_handler_def handle_body_def std_headers_def
           split: sum.splits prod.splits bool.splits)

theorem lambda_handler_response_contract_witness:
  "statusCode (fst (lambda_handler cold_env initial_globals JNull)) = 500
   \<and> headers (fst (lambda_handler cold_env initial_globals JNull)) =
       [(''Content-Type'', ''application/json''), (''Access-Control-Allow-Origin'', ''*'')]"
proof -
  have "statusCode (fst (lambda_handler cold_env initial_globals JNull)) = 500"
    by (simp add: lambda_handler_def parse_body_def)
  with lambda_handler_response_contract [of cold_env initial_globals JNull]
  show ?thesis by simp
qed

subsection \<open>Request validation\<close>

text \<open>
  C4. The claim is that every request whose parsed body lacks the \<^verbatim>\<open>text\<close> field is
  answered 400. A body that is not an object lacks the field too, and is not answered
  400 when the test of line 109 cannot be made or line 121 cannot read it: the envelope
  whose body is the text \<^verbatim>\<open>null\<close> and the bare string \<^verbatim>\<open>my text\<close> are both
  answered 500.
\<close>

theorem body_without_text_field_gets_500:
  "parse_body null_body_env (JObj [(''body'', JStr ''null'')]) = Inr JNull
   \<and> statusCode (fst (lambda_handler null_body_env initial_globals
         (JObj [(''body'', JStr ''null'')]))) = 500
   \<and> parse_body cold_env (JStr ''my text'') = Inr (JStr ''my text'')
   \<and> statusCode (fst (lambda_handler cold_env initial_globals (JStr ''my text''))) = 500"
proof -
  have a: "parse_body null_body_env (JObj [(''body'', JStr ''null'')]) = Inr JNull"
    by (simp add: parse_body_def null_body_env_def)
  have b: "statusCode (fst (lambda_handler null_body_env initial_globals
             (JObj [(''body'', JStr ''null'')]))) = 500"
    by (simp add: lambda_handler_def a handle_body_def)
  have c: "parse_body cold_env (JStr ''my text'') = Inr (JStr ''my text'')"
    by (simp add: parse_body_def startswith_def)
  have d: "statusCode (fst (lambda_handler cold_env initial_globals (JStr ''my text''))) = 500"
    by (simp add: lambda_handler_def c handle_body_def startswith_def)
  from a b c d show ?thesis by blast
qed

text \<open>
  C4, as the code has it. Let the parsed body of a request lack the \<^verbatim>\<open>text\<close> field,
  that is, be anything but an object with that key.
  \<^item> When the test \<^verbatim>\<open>'text' in body\<close> is false, the handler answers 400 with the body
    \<^verbatim>\<open>{"error": "Missing required field: text"}\<close>, and does nothing else. The test is
    false exactly on an object (without the key), on a list that has no element
    \<^verbatim>\<open>'text'\<close> and on a string that has no substring \<^verbatim>\<open>text\<close>.
  \<^item> Otherwise the test raises (null, a number, a boolean) or \<^verbatim>\<open>body['text']\<close> raises
    (a list with the element, a string with the substring), and the handler answers 500
    with the message of that exception and prints one line.
  \<^item> In both cases the globals are what they were and the provisioner is not invoked:
    each of its runs starts with the cache line or the probe
    (\<open>load_model_first_event\<close>), and neither event occurs.
\<close>

theorem body_without_text_never_reaches_provisioner:
  assumes "parse_body env ev = Inr b"
    and "\<forall>kvs. b = JObj kvs \<longrightarrow> ''text'' \<notin> set (map fst kvs)"
  shows "(py_in ''text'' b = Inr False \<longrightarrow>
            lambda_handler env g ev =
              (\<lparr>statusCode = 400, headers = std_headers,
                body = JObj [(''error'', JStr ''Missing required field: text'')]\<rparr>, g, []))
         \<and> (py_in ''text'' b \<noteq> Inr False \<longrightarrow>
               (\<exists>e. lambda_handler env g ev =
                  (\<lparr>statusCode = 500, headers = std_headers,
                    body = JObj [(''error'', JStr (str_exn e)),
                                 (''message'', JStr ''Internal server error'')]\<rparr>,
                   g, [Print (''Lambda error: '' @ str_exn e)])))
         \<and> (py_in ''text'' b = Inr False \<longleftrightarrow>
               (\<exists>kvs. b = JObj kvs) \<or> (\<exists>xs. b = JArr xs \<and> JStr ''text'' \<notin> set xs)
               \<or> (\<exists>s. b = JStr s \<and> \<not> str_contains ''text'' s))
         \<and> fst (snd (lambda_handler env g ev)) = g
         \<and> (\<forall>e \<in> set (snd (snd (lambda_handler env g ev))).
               e \<noteq> Print ''Using cached model'' \<and> \<not> is_provisioning_io e)"
proof -
  let ?r400 = "\<lparr>statusCode = 400, headers = std_headers,
                body = JObj [(''error'', JStr ''Missing required field: text'')]\<rparr>"
  have c400: "py_in ''text'' b = Inr False \<Longrightarrow> lambda_handler env g ev = (?r400, g, [])"
    using assms(1) by (simp add: lambda_handler_def handle_body_def)
  have raises: "py_in ''text'' b \<noteq> Inr False \<Longrightarrow> \<exists>e. handle_body env g b = (Inl e, g, [])"
    using assms(2)
    by (cases b) (auto simp: handle_body_def split: sum.splits bool.splits)
  have c500: "py_in ''text'' b \<noteq> Inr False \<Longrightarrow>
      \<exists>e. lambda_handler env g ev =
             (\<lparr>statusCode = 500, headers = std_headers,
               body = JObj [(''error'', JStr (str_exn e)),
                            (''message'', JStr ''Internal server error'')]\<rparr>,
              g, [Print (''Lambda error: '' @ str_exn e)])"
  proof -
    assume "py_in ''text'' b \<noteq> Inr False"
    from raises [OF this] obtain e where "handle_body env g b = (Inl e, g, [])" ..
    with assms(1) have "lambda_handler env g ev =
             (\<lparr>statusCode = 500, headers = std_headers,
               body = JObj [(''error'', JStr (str_exn e)),
                            (''message'', JStr ''Internal server error'')]\<rparr>,
              g, [Print (''Lambda error: '' @ str_exn e)])"
      by (simp add: lambda_handler_def)
    then show ?thesis by blast
  qed
  have shape: "py_in ''text'' b = Inr False \<longleftrightarrow>
               (\<exists>kvs. b = JObj kvs) \<or> (\<exists>xs. b = JArr xs \<and> JStr ''text'' \<notin> set xs)
               \<or> (\<exists>s. b = JStr s \<and> \<not> str_contains ''text'' s)"
    using assms(2) by (cases b) auto
  have same: "fst (snd (lambda_handler env g ev)) = g"
    using c400 c500 by (cases "py_in ''text'' b = Inr False") auto
  have quiet: "\<forall>e \<in> set (snd (snd (lambda_handler env g ev))).
                 e \<noteq> Print ''Using cached model'' \<and> \<not> is_provisioning_io e"
    using c400 c500 by (cases "py_in ''text'' b = Inr False") auto
  from c400 c500 shape same quiet show ?thesis by blast
qed

theorem body_without_text_never_reaches_provisioner_witness:
  "parse_body cold_env (JObj [(''body'', JStr ''{}'')]) = Inr (JObj [])
   \<and> lambda_handler cold_env initial_globals (JObj [(''body'', JStr ''{}'')]) =
       (\<lparr>statusCode = 400, headers = std_headers,
         body = JObj [(''error'', JStr ''Missing required field: text'')]\<rparr>, initial_globals, [])
   \<and> parse_body null_body_env (JObj [(''body'', JStr ''null'')]) = Inr JNull
   \<and> fst (snd (lambda_handler null_body_env loaded_globals (JObj [(''body'', JStr ''null'')])))
       = loaded_globals"
proof -
  have p: "parse_body cold_env (JObj [(''body'', JStr ''{}'')]) = Inr (JObj [])"
    by (simp add: parse_body_def cold_env_def)
  have k: "\<forall>kvs. JObj [] = JObj kvs \<longrightarrow> ''text'' \<notin> set (map fst kvs)" by simp
  have t: "py_in ''text'' (JObj []) = Inr False" by simp
  have q: "parse_body null_body_env (JObj [(''body'', JStr ''null'')]) = Inr JNull"
    by (simp add: parse_body_def null_body_env_def)
  have n: "\<forall>kvs. JNull = JObj kvs \<longrightarrow> ''text'' \<notin> set (map fst kvs)" by simp
  from body_without_text_never_reaches_provisioner [OF p k, of initial_globals] t
  have a: "lambda_handler cold_env initial_globals (JObj [(''body'', JStr ''{}'')]) =
       (\<lparr>statusCode = 400, headers = std_headers,
         body = JObj [(''error'', JStr ''Missing required field: text'')]\<rparr>, initial_globals, [])"
    by blast
  from body_without_text_never_reaches_provisioner [OF q n, of loaded_globals]
  have b: "fst (snd (lambda_handler null_body_env loaded_globals
             (JObj [(''body'', JStr ''null'')]))) = loaded_globals"
    by blast
  from p a q b show ?thesis by blast
qed

text \<open>
  C10. Validation looks at the presence of the key only. When the parsed body is an
  object whose \<^verbatim>\<open>text\<close> entry is any value \<open>v\<close>, the response is never the 400 one;
  the model is called with no argument other than \<open>v\<close>; and whenever the provisioner
  hands back a handle, the model is called with \<open>v\<close> itself, and if it scores \<open>v\<close> the
  response is 200 and echoes \<open>v\<close> as its \<^verbatim>\<open>text\<close>.
\<close>

theorem text_value_is_forwarded_unchecked:
  assumes "parse_body env ev = Inr (JObj kvs)" and "map_of kvs ''text'' = Some v"
  shows "statusCode (fst (lambda_handler env g ev)) \<noteq> 400
         \<and> (\<forall>x. ModelCall x \<in> set (snd (snd (lambda_handler env g ev))) \<longrightarrow> x = v)
         \<and> (\<forall>nlp g1 evs1. load_model env g = (Inr (Some nlp), g1, evs1) \<longrightarrow>
               ModelCall v \<in> set (snd (snd (lambda_handler env g ev)))
               \<and> (\<forall>cats t n. nlp v = Inr cats \<and> map_of cats ''TOXIC'' = Some t
                     \<and> map_of cats ''NOT_TOXIC'' = Some n \<longrightarrow>
                     fst (lambda_handler env g ev) =
                       \<lparr>statusCode = 200, headers = std_headers,
                        body = JObj [(''text'', v), (''is_toxic'', JBool (t \<ge> 0.5)),
                                     (''toxic_score'', JFloat t), (''not_toxic_score'', JFloat n),
                                     (''confidence'', JFloat (max t n))]\<rparr>))"
proof -
  from assms(2) have key: "''text'' \<in> set (map fst kvs)"
    by (metis map_of_eq_None_iff option.distinct(1) set_map)
  obtain r0 g1 evs1 where lm: "load_model env g = (r0, g1, evs1)"
    by (cases "load_model env g")
  obtain r2 evs2 where pt: "predict_toxicity g1 v = (r2, evs2)"
    by (cases "predict_toxicity g1 v")
  have no_call: "\<And>x. ModelCall x \<notin> set evs1"
    using load_model_no_model_call [OF lm] .
  have calls: "\<And>x. ModelCall x \<in> set evs2 \<Longrightarrow> x = v"
    using predict_toxicity_events [OF pt] by auto
  have status: "statusCode (fst (lambda_handler env g ev)) \<noteq> 400"
    using assms key lm pt
    by (auto simp: lambda_handler_def handle_body_def split: sum.splits)
  have only: "\<forall>x. ModelCall x \<in> set (snd (snd (lambda_handler env g ev))) \<longrightarrow> x = v"
    using assms key lm pt no_call calls
    by (auto simp: lambda_handler_def handle_body_def split: sum.splits)
  have fwd: "\<forall>nlp g1' evs1'. load_model env g = (Inr (Some nlp), g1', evs1') \<longrightarrow>
               ModelCall v \<in> set (snd (snd (lambda_handler env g ev)))
               \<and> (\<forall>cats t n. nlp v = Inr cats \<and> map_of cats ''TOXIC'' = Some t
                     \<and> map_of cats ''NOT_TOXIC'' = Some n \<longrightarrow>
                     fst (lambda_handler env g ev) =
                       \<lparr>statusCode = 200, headers = std_headers,
                        body = JObj [(''text'', v), (''is_toxic'', JBool (t \<ge> 0.5)),
                                     (''toxic_score'', JFloat t), (''not_toxic_score'', JFloat n),
                                     (''confidence'', JFloat (max t n))]\<rparr>)"
  proof (intro allI impI)
    fix nlp g1' evs1'
    assume ok: "load_model env g = (Inr (Some nlp), g1', evs1')"
    from load_model_returns_global [OF ok] have h: "nlp_model g1' = Some nlp" .
    have a: "ModelCall v \<in> set (snd (snd (lambda_handler env g ev)))"
      using assms key ok predict_toxicity_calls_model [OF h, of v]
      by (auto simp: lambda_handler_def handle_body_def split: sum.splits prod.splits)
    have b: "\<forall>cats t n. nlp v = Inr cats \<and> map_of cats ''TOXIC'' = Some t
                     \<and> map_of cats ''NOT_TOXIC'' = Some n \<longrightarrow>
                     fst (lambda_handler env g ev) =
                       \<lparr>statusCode = 200, headers = std_headers,
                        body = JObj [(''text'', v), (''is_toxic'', JBool (t \<ge> 0.5)),
                                     (''toxic_score'', JFloat t), (''not_toxic_score'', JFloat n),
                                     (''confidence'', JFloat (max t n))]\<rparr>"
      using assms key ok h
      by (auto simp: lambda_handler_def handle_body_def predict_toxicity_def cats_get_def
                     prediction_json_def py_max_is_max)
    from a b show "ModelCall v \<in> set (snd (snd (lambda_handler env g ev))) \<and>
       (\<forall>cats t n. nlp v = Inr cats \<and> map_of cats ''TOXIC'' = Some t
                     \<and> map_of cats ''NOT_TOXIC'' = Some n \<longrightarrow>
                     fst (lambda_handler env g ev) =
                       \<lparr>statusCode = 200, headers = std_headers,
                        body = JObj [(''text'', v), (''is_toxic'', JBool (t \<ge> 0.5)),
                                     (''toxic_score'', JFloat t), (''not_toxic_score'', JFloat n),
                                     (''confidence'', JFloat (max t n))]\<rparr>)"
      by blast
  qed
  from status only fwd show ?thesis by blast
qed

theorem text_value_is_forwarded_unchecked_witness:
  "parse_body cold_env (JObj [(''text'', JNull)]) = Inr (JObj [(''text'', JNull)])
   \<and> map_of [(''text'', JNull)] ''text'' = Some JNull
   \<and> statusCode (fst (lambda_handler cold_env loaded_globals (JObj [(''text'', JNull)]))) \<noteq> 400
   \<and> ModelCall JNull
        \<in> set (snd (snd (lambda_handler cold_env loaded_globals (JObj [(''text'', JNull)]))))"
proof -
  have p: "parse_body cold_env (JObj [(''text'', JNull)]) = Inr (JObj [(''text'', JNull)])"
    by (simp add: parse_body_def)
  have k: "map_of [(''text'', JNull)] ''text'' = Some JNull" by simp
  have l: "load_model cold_env loaded_globals =
             (Inr (Some demo_model), loaded_globals, [Print ''Using cached model''])"
    by (simp add: load_model_def loaded_globals_def)
  from text_value_is_forwarded_unchecked [OF p k, of loaded_globals] l p k
  show ?thesis by blast
qed

subsection \<open>The cache of the loaded model\<close>

text \<open>
  C7. Once the flag is set and the handle is not empty, \<^verbatim>\<open>load_model\<close> returns that
  handle at once: it prints one line, changes nothing and makes no call to the file system
  or the object store. The handler does not leave that state either: after any sequence of
  invocations in the process the globals are the same, and none of the events of those
  invocations is a probe, a listing, a download or a local load.
\<close>

theorem loaded_state_is_terminal:
  assumes "model_loaded g" and "nlp_model g = Some h"
  shows "load_model env g = (Inr (Some h), g, [Print ''Using cached model''])
         \<and> (\<forall>invs. fst (snd (serve g invs)) = g
               \<and> (\<forall>e \<in> set (snd (snd (serve g invs))). \<not> is_provisioning_io e))"
proof -
  from assms have l: "is_loaded g" by (simp add: is_loaded_def)
  have a: "load_model env g = (Inr (Some h), g, [Print ''Using cached model''])"
    using load_model_cached [OF l, of env] assms(2) by simp
  have b: "\<forall>invs. fst (snd (serve g invs)) = g
               \<and> (\<forall>e \<in> set (snd (snd (serve g invs))). \<not> is_provisioning_io e)"
  proof
    fix invs
    obtain rs g1 evs where s: "serve g invs = (rs, g1, evs)" by (cases "serve g invs")
    from serve_loaded [OF l s] s
    show "fst (snd (serve g invs)) = g
            \<and> (\<forall>e \<in> set (snd (snd (serve g invs))). \<not> is_provisioning_io e)"
      by simp
  qed
  from a b show ?thesis by blast
qed

theorem loaded_state_is_terminal_witness:
  "model_loaded loaded_globals \<and> nlp_model loaded_globals = Some demo_model
   \<and> load_model cold_env loaded_globals =
        (Inr (Some demo_model), loaded_globals, [Print ''Using cached model''])
   \<and> fst (snd (serve loaded_globals
        [(cold_env, JObj [(''text'', JStr ''hello'')]), (listing_fails_env, JNull)])) = loaded_globals"
proof -
  have m: "model_loaded loaded_globals" by (simp add: loaded_globals_def)
  have n: "nlp_model loaded_globals = Some demo_model" by (simp add: loaded_globals_def)
  from loaded_state_is_terminal [OF m n, of cold_env] m n show ?thesis by blast
qed

text \<open>
  C1. The claim is that a start with the marker file present and nothing loaded loads
  the model from the local path and returns a usable handle. In a fresh process with
  \<^verbatim>\<open>/tmp/toxic_chat_model_full/config.cfg\<close> present, \<^verbatim>\<open>load_model\<close> probes the file,
  prints that the model was found and loaded, sets the flag and returns the empty handle:
  it never calls \<^verbatim>\<open>spacy.load\<close>. The request that triggered it is answered 500,
  "Model not loaded".
\<close>

theorem warm_start_returns_empty_handle:
  "path_exists warm_env marker_file \<and> \<not> is_loaded initial_globals
   \<and> load_model warm_env initial_globals =
       (Inr None, \<lparr>nlp_model = None, model_loaded = True\<rparr>,
        [PathExists ''/tmp/toxic_chat_model_full/config.cfg'',
         Print ''Found existing model in /tmp'', Print ''Model loaded successfully!''])
   \<and> statusCode (fst (lambda_handler warm_env initial_globals (JObj [(''text'', JStr ''hello'')])))
       = 500
   \<and> body (fst (lambda_handler warm_env initial_globals (JObj [(''text'', JStr ''hello'')])))
       = JObj [(''error'', JStr ''Model not loaded''), (''message'', JStr ''Internal server error'')]"
proof -
  have m: "marker_file = ''/tmp/toxic_chat_model_full/config.cfg''"
    by (simp add: marker_file_def probe_dir_def os_path_join_def startswith_def endswith_def)
  have p: "path_exists warm_env marker_file" by (simp add: m warm_env_def)
  have i: "\<not> is_loaded initial_globals" by (simp add: is_loaded_def initial_globals_def)
  have l: "load_model warm_env initial_globals =
       (Inr None, \<lparr>nlp_model = None, model_loaded = True\<rparr>,
        [PathExists ''/tmp/toxic_chat_model_full/config.cfg'',
         Print ''Found existing model in /tmp'', Print ''Model loaded successfully!''])"
    using p by (simp add: load_model_def initial_globals_def m)
  have h: "lambda_handler warm_env initial_globals (JObj [(''text'', JStr ''hello'')]) =
            (\<lparr>statusCode = 500, headers = std_headers,
              body = JObj [(''error'', JStr ''Model not loaded''),
                           (''message'', JStr ''Internal server error'')]\<rparr>,
             \<lparr>nlp_model = None, model_loaded = True\<rparr>,
             [PathExists ''/tmp/toxic_chat_model_full/config.cfg'',
              Print ''Found existing model in /tmp'', Print ''Model loaded successfully!'',
              Print ''Lambda error: Model not loaded''])"
    by (simp add: lambda_handler_def parse_body_def handle_body_def l predict_toxicity_def)
  from p i l h show ?thesis by simp
qed

text \<open>
  C2. The claim is that after every call of \<^verbatim>\<open>load_model\<close> the flag is set exactly
  when the handle is not empty, and that a failed load leaves the flag unset. The start of
  C1 leaves the flag set and the handle empty; when the marker file is gone at the next
  call and the remote listing raises, the exception is raised again and the flag is still
  set.
\<close>

theorem warm_start_sets_flag_without_handle:
  "(case load_model warm_env initial_globals of
      (r, g, evs) \<Rightarrow>
        model_loaded g \<and> nlp_model g = None
        \<and> (case load_model listing_fails_env g of
             (r', g', evs') \<Rightarrow>
               r' = Inl (PyExc ''ClientError'' ''AccessDenied'')
               \<and> model_loaded g' \<and> nlp_model g' = None))"
proof -
  have m: "marker_file = ''/tmp/toxic_chat_model_full/config.cfg''"
    by (simp add: marker_file_def probe_dir_def os_path_join_def startswith_def endswith_def)
  have l: "load_model warm_env initial_globals =
       (Inr None, \<lparr>nlp_model = None, model_loaded = True\<rparr>,
        [PathExists marker_file,
         Print ''Found existing model in /tmp'', Print ''Model loaded successfully!''])"
    by (simp add: load_model_def initial_globals_def m warm_env_def)
  have s: "fst (load_model_from_s3 listing_fails_env) = Inl (PyExc ''ClientError'' ''AccessDenied'')"
    by (simp add: load_model_from_s3_def listing_fails_env_def cold_env_def fetch_and_load_def
                  Let_def)
  have n: "\<not> path_exists listing_fails_env marker_file"
    by (simp add: listing_fails_env_def cold_env_def)
  have f: "case load_model listing_fails_env \<lparr>nlp_model = None, model_loaded = True\<rparr> of
             (r', g', evs') \<Rightarrow>
               r' = Inl (PyExc ''ClientError'' ''AccessDenied'')
               \<and> model_loaded g' \<and> nlp_model g' = None"
    using s n by (auto simp: load_model_def split: prod.splits sum.splits)
  from l f show ?thesis by simp
qed


subsection \<open>Where the model is downloaded to and where it is looked for\<close>

lemma download_dir_eq_probe_dir_iff:
  "download_dir d = probe_dir \<longleftrightarrow> d = ''/tmp'' \<or> d = ''/tmp/''"
proof (cases "d = [] \<or> endswith d ''/''")
  case True
  have "d @ ''toxic_chat_model_full'' = ''/tmp/'' @ ''toxic_chat_model_full'' \<longleftrightarrow> d = ''/tmp/''"
    by (rule append_same_eq)
  moreover from True have "d \<noteq> ''/tmp''" by (auto simp: endswith_def)
  ultimately show ?thesis using True
    by (simp add: download_dir_def probe_dir_def os_path_join_def startswith_def)
next
  case False
  have "d @ ''/toxic_chat_model_full'' = ''/tmp'' @ ''/toxic_chat_model_full'' \<longleftrightarrow> d = ''/tmp''"
    by (rule append_same_eq)
  moreover from False have "d \<noteq> ''/tmp/''" by (auto simp: endswith_def)
  ultimately show ?thesis using False
    by (simp add: download_dir_def probe_dir_def os_path_join_def startswith_def)
qed

text \<open>
  C8. The claim is that the directory the remote objects are mirrored into is the
  directory that is probed for the marker file. On a cold start in which
  \<^verbatim>\<open>tempfile.mkdtemp\<close> returns \<^verbatim>\<open>/tmp/tmpa1b2c3d4\<close> the objects are written under
  \<^verbatim>\<open>/tmp/tmpa1b2c3d4/toxic_chat_model_full\<close> and the model is loaded from there, while
  the probe looks at \<^verbatim>\<open>/tmp/toxic_chat_model_full/config.cfg\<close>. The two directories
  are equal only if \<^verbatim>\<open>mkdtemp\<close> returns \<^verbatim>\<open>/tmp\<close> itself
  (\<open>download_dir_eq_probe_dir_iff\<close>), and it returns a directory it has just created.
\<close>

theorem download_dir_is_not_probe_dir:
  "mkdtemp cold_env = Inr ''/tmp/tmpa1b2c3d4''
   \<and> download_dir ''/tmp/tmpa1b2c3d4'' = ''/tmp/tmpa1b2c3d4/toxic_chat_model_full''
   \<and> probe_dir = ''/tmp/toxic_chat_model_full''
   \<and> download_dir ''/tmp/tmpa1b2c3d4'' \<noteq> probe_dir
   \<and> snd (snd (load_model cold_env initial_globals)) =
       [PathExists ''/tmp/toxic_chat_model_full/config.cfg'',
        Print ''Model not found locally, downloading from S3...'',
        Boto3Client, Mkdtemp, Makedirs ''/tmp/tmpa1b2c3d4/toxic_chat_model_full'',
        ListObjects ''toxic-chat-classifier'' ''toxic_chat_model_full/'',
        Makedirs ''/tmp/tmpa1b2c3d4/toxic_chat_model_full'',
        Download ''toxic-chat-classifier'' ''toxic_chat_model_full/config.cfg''
          ''/tmp/tmpa1b2c3d4/toxic_chat_model_full/config.cfg'',
        Makedirs ''/tmp/tmpa1b2c3d4/toxic_chat_model_full/textcat'',
        Download ''toxic-chat-classifier'' ''toxic_chat_model_full/textcat/model''
          ''/tmp/tmpa1b2c3d4/toxic_chat_model_full/textcat/model'',
        SpacyLoad ''/tmp/tmpa1b2c3d4/toxic_chat_model_full'',
        Print ''Model loaded successfully!'']"
proof -
  have a: "mkdtemp cold_env = Inr ''/tmp/tmpa1b2c3d4''" by (simp add: cold_env_def)
  have b: "download_dir ''/tmp/tmpa1b2c3d4'' = ''/tmp/tmpa1b2c3d4/toxic_chat_model_full''"
    by code_simp
  have c: "probe_dir = ''/tmp/toxic_chat_model_full''" by (simp add: probe_dir_def)
  have d: "download_dir ''/tmp/tmpa1b2c3d4'' \<noteq> probe_dir" by (simp add: b c)
  have e: "snd (snd (load_model cold_env initial_globals)) =
       [PathExists ''/tmp/toxic_chat_model_full/config.cfg'',
        Print ''Model not found locally, downloading from S3...'',
        Boto3Client, Mkdtemp, Makedirs ''/tmp/tmpa1b2c3d4/toxic_chat_model_full'',
        ListObjects ''toxic-chat-classifier'' ''toxic_chat_model_full/'',
        Makedirs ''/tmp/tmpa1b2c3d4/toxic_chat_model_full'',
        Download ''toxic-chat-classifier'' ''toxic_chat_model_full/config.cfg''
          ''/tmp/tmpa1b2c3d4/toxic_chat_model_full/config.cfg'',
        Makedirs ''/tmp/tmpa1b2c3d4/toxic_chat_model_full/textcat'',
        Download ''toxic-chat-classifier'' ''toxic_chat_model_full/textcat/model''
          ''/tmp/tmpa1b2c3d4/toxic_chat_model_full/textcat/model'',
        SpacyLoad ''/tmp/tmpa1b2c3d4/toxic_chat_model_full'',
        Print ''Model loaded successfully!'']"
    by code_simp
  from a b c d e show ?thesis by blast
qed

subsection \<open>Failures of the provisioner\<close>

text \<open>
  What holds of every failure of the provisioner.
  \<^item> Whenever \<^verbatim>\<open>load_model\<close> raises, the globals are exactly what they were and the
    test of line 73 fails on them; so the next invocation probes the marker file and, when
    it is absent, runs the whole of \<^verbatim>\<open>load_model_from_s3\<close> again and returns what
    that run gives.
  \<^item> On a cold start (nothing loaded, no marker file, client and download directory
    created) each of the four failures is raised by \<^verbatim>\<open>load_model\<close>: the exception of
    the remote listing; "No files found" when the listing has no contents; the exception
    with which the download loop stops, and the loop does stop with one when the download
    of a listed file raises; the exception of \<^verbatim>\<open>spacy.load\<close> after all downloads
    succeeded.
\<close>

lemma failure_keeps_globals_and_is_raised:
  "(\<forall>e g' evs. load_model env g = (Inl e, g', evs) \<longrightarrow>
       g' = g \<and> \<not> is_loaded g'
       \<and> (\<not> path_exists env' marker_file \<longrightarrow>
            fst (load_model env' g') =
              (case fst (load_model_from_s3 env') of
                 Inl e' \<Rightarrow> Inl e' | Inr nlp \<Rightarrow> Inr (Some nlp))
            \<and> (\<exists>tl. snd (snd (load_model env' g')) =
                  PathExists marker_file
                  # Print ''Model not found locally, downloading from S3...''
                  # snd (load_model_from_s3 env') @ tl)))
   \<and> (\<not> is_loaded g \<and> \<not> path_exists env marker_file \<and> boto3_client env = None
        \<and> mkdtemp env = Inr d \<and> makedirs env (download_dir d) = None \<longrightarrow>
        (\<forall>e. list_objects_v2 env bucket_name model_prefix = Inl e \<longrightarrow>
              fst (load_model env g) = Inl e)
        \<and> (list_objects_v2 env bucket_name model_prefix = Inr None \<longrightarrow>
              fst (load_model env g) =
                Inl (PyExc ''Exception'' ''No files found in toxic_chat_model_full/''))
        \<and> (\<forall>keys. list_objects_v2 env bucket_name model_prefix = Inr (Some keys) \<longrightarrow>
              (\<forall>key e. key \<in> set keys \<and> \<not> endswith key ''/''
                   \<and> download_file env bucket_name key
                        (os_path_join (download_dir d) (py_replace key model_prefix ''''))
                      = Some e \<longrightarrow>
                   fst (download_all env (download_dir d) keys) \<noteq> None)
              \<and> (\<forall>e. fst (download_all env (download_dir d) keys) = Some e \<longrightarrow>
                     fst (load_model env g) = Inl e)
              \<and> (\<forall>e. fst (download_all env (download_dir d) keys) = None
                     \<and> spacy_load env (download_dir d) = Inl e \<longrightarrow>
                     fst (load_model env g) = Inl e)))"
proof (intro conjI allI impI)
  fix e g' evs
  assume r: "load_model env g = (Inl e, g', evs)"
  from load_model_raises(1) [OF r] show same: "g' = g" .
  from load_model_raises(2) [OF r] same show nl: "\<not> is_loaded g'" by simp
  assume m: "\<not> path_exists env' marker_file"
  from load_model_cold_result [OF nl m]
  show "fst (load_model env' g') =
          (case fst (load_model_from_s3 env') of
             Inl e' \<Rightarrow> Inl e' | Inr nlp \<Rightarrow> Inr (Some nlp))" .
  from load_model_cold_events [OF nl m]
  show "\<exists>tl. snd (snd (load_model env' g')) =
          PathExists marker_file # Print ''Model not found locally, downloading from S3...''
          # snd (load_model_from_s3 env') @ tl" .
next
  fix e
  assume c: "\<not> is_loaded g \<and> \<not> path_exists env marker_file \<and> boto3_client env = None
        \<and> mkdtemp env = Inr d \<and> makedirs env (download_dir d) = None"
    and l: "list_objects_v2 env bucket_name model_prefix = Inl e"
  from c fetch_listing_raises [OF l] show "fst (load_model env g) = Inl e"
    by (intro cold_load_is_fetch) auto
next
  assume c: "\<not> is_loaded g \<and> \<not> path_exists env marker_file \<and> boto3_client env = None
        \<and> mkdtemp env = Inr d \<and> makedirs env (download_dir d) = None"
    and l: "list_objects_v2 env bucket_name model_prefix = Inr None"
  from c fetch_no_contents [OF l]
  show "fst (load_model env g) =
          Inl (PyExc ''Exception'' ''No files found in toxic_chat_model_full/'')"
    by (intro cold_load_is_fetch) auto
next
  fix keys key e
  assume "key \<in> set keys \<and> \<not> endswith key ''/''
            \<and> download_file env bucket_name key
                 (os_path_join (download_dir d) (py_replace key model_prefix '''')) = Some e"
  then show "fst (download_all env (download_dir d) keys) \<noteq> None"
    using download_all_raises by blast
next
  fix keys e
  assume c: "\<not> is_loaded g \<and> \<not> path_exists env marker_file \<and> boto3_client env = None
        \<and> mkdtemp env = Inr d \<and> makedirs env (download_dir d) = None"
    and l: "list_objects_v2 env bucket_name model_prefix = Inr (Some keys)"
    and f: "fst (download_all env (download_dir d) keys) = Some e"
  from c fetch_download_raises [OF l f] show "fst (load_model env g) = Inl e"
    by (intro cold_load_is_fetch) auto
next
  fix keys e
  assume c: "\<not> is_loaded g \<and> \<not> path_exists env marker_file \<and> boto3_client env = None
        \<and> mkdtemp env = Inr d \<and> makedirs env (download_dir d) = None"
    and l: "list_objects_v2 env bucket_name model_prefix = Inr (Some keys)"
    and f: "fst (download_all env (download_dir d) keys) = None
              \<and> spacy_load env (download_dir d) = Inl e"
  from c fetch_spacy_raises [OF l] f show "fst (load_model env g) = Inl e"
    by (intro cold_load_is_fetch) auto
qed

lemma failure_keeps_globals_and_is_raised_examples:
  "fst (load_model listing_fails_env initial_globals) = Inl (PyExc ''ClientError'' ''AccessDenied'')
   \<and> fst (load_model empty_prefix_env initial_globals) =
        Inl (PyExc ''Exception'' ''No files found in toxic_chat_model_full/'')
   \<and> fst (load_model download_fails_env initial_globals) = Inl (PyExc ''ClientError'' ''Not Found'')
   \<and> fst (load_model spacy_fails_env initial_globals) =
        Inl (PyExc ''OSError'' ''[E053] Could not read config file'')
   \<and> fst (snd (load_model listing_fails_env initial_globals)) = initial_globals
   \<and> \<not> is_loaded (fst (snd (load_model listing_fails_env initial_globals)))
   \<and> fst (load_model cold_env (fst (snd (load_model listing_fails_env initial_globals)))) =
        (case fst (load_model_from_s3 cold_env) of Inl e' \<Rightarrow> Inl e' | Inr nlp \<Rightarrow> Inr (Some nlp))"
proof -
  let ?d = "''/tmp/tmpa1b2c3d4''"
  let ?keys = "[''toxic_chat_model_full/'', ''toxic_chat_model_full/config.cfg'',
                ''toxic_chat_model_full/textcat/model'']"
  have nl: "\<not> is_loaded initial_globals" by (simp add: is_loaded_def initial_globals_def)
  have cold1: "\<not> is_loaded initial_globals \<and> \<not> path_exists listing_fails_env marker_file
      \<and> boto3_client listing_fails_env = None \<and> mkdtemp listing_fails_env = Inr ?d
      \<and> makedirs listing_fails_env (download_dir ?d) = None"
    using nl by (simp add: listing_fails_env_def cold_env_def)
  have cold2: "\<not> is_loaded initial_globals \<and> \<not> path_exists empty_prefix_env marker_file
      \<and> boto3_client empty_prefix_env = None \<and> mkdtemp empty_prefix_env = Inr ?d
      \<and> makedirs empty_prefix_env (download_dir ?d) = None"
    using nl by (simp add: empty_prefix_env_def cold_env_def)
  have cold3: "\<not> is_loaded initial_globals \<and> \<not> path_exists download_fails_env marker_file
      \<and> boto3_client download_fails_env = None \<and> mkdtemp download_fails_env = Inr ?d
      \<and> makedirs download_fails_env (download_dir ?d) = None"
    using nl by (simp add: download_fails_env_def cold_env_def)
  have cold4: "\<not> is_loaded initial_globals \<and> \<not> path_exists spacy_fails_env marker_file
      \<and> boto3_client spacy_fails_env = None \<and> mkdtemp spacy_fails_env = Inr ?d
      \<and> makedirs spacy_fails_env (download_dir ?d) = None"
    using nl by (simp add: spacy_fails_env_def cold_env_def)
  have l1: "list_objects_v2 listing_fails_env bucket_name model_prefix =
              Inl (PyExc ''ClientError'' ''AccessDenied'')"
    by (simp add: listing_fails_env_def)
  have l2: "list_objects_v2 empty_prefix_env bucket_name model_prefix = Inr None"
    by (simp add: empty_prefix_env_def)
  have l3: "list_objects_v2 download_fails_env bucket_name model_prefix = Inr (Some ?keys)"
    by (simp add: download_fails_env_def cold_env_def)
  have l4: "list_objects_v2 spacy_fails_env bucket_name model_prefix = Inr (Some ?keys)"
    by (simp add: spacy_fails_env_def cold_env_def)
  have d3: "fst (download_all download_fails_env (download_dir ?d) ?keys) =
              Some (PyExc ''ClientError'' ''Not Found'')"
    by code_simp
  have d4: "fst (download_all spacy_fails_env (download_dir ?d) ?keys) = None"
    by code_simp
  have s4: "spacy_load spacy_fails_env (download_dir ?d) =
              Inl (PyExc ''OSError'' ''[E053] Could not read config file'')"
    by (simp add: spacy_fails_env_def)
  have m: "\<not> path_exists cold_env marker_file" by (simp add: cold_env_def)
  have r1: "fst (load_model listing_fails_env initial_globals) =
              Inl (PyExc ''ClientError'' ''AccessDenied'')"
    using failure_keeps_globals_and_is_raised
            [of listing_fails_env initial_globals cold_env ?d] cold1 l1
    by blast
  have r2: "fst (load_model empty_prefix_env initial_globals) =
              Inl (PyExc ''Exception'' ''No files found in toxic_chat_model_full/'')"
    using failure_keeps_globals_and_is_raised
            [of empty_prefix_env initial_globals cold_env ?d] cold2 l2
    by blast
  have r3: "fst (load_model download_fails_env initial_globals) =
              Inl (PyExc ''ClientError'' ''Not Found'')"
    using failure_keeps_globals_and_is_raised
            [of download_fails_env initial_globals cold_env ?d] cold3 l3 d3
    by blast
  have r4: "fst (load_model spacy_fails_env initial_globals) =
              Inl (PyExc ''OSError'' ''[E053] Could not read config file'')"
    using failure_keeps_globals_and_is_raised
            [of spacy_fails_env initial_globals cold_env ?d] cold4 l4 d4 s4
    by blast
  obtain g' evs where run: "load_model listing_fails_env initial_globals =
      (Inl (PyExc ''ClientError'' ''AccessDenied''), g', evs)"
    using r1 by (cases "load_model listing_fails_env initial_globals") auto
  from failure_keeps_globals_and_is_raised
         [of listing_fails_env initial_globals cold_env ?d] run m
  have after: "g' = initial_globals \<and> \<not> is_loaded g'
     \<and> fst (load_model cold_env g') =
         (case fst (load_model_from_s3 cold_env) of Inl e' \<Rightarrow> Inl e' | Inr nlp \<Rightarrow> Inr (Some nlp))"
    by blast
  from after have g': "g' = initial_globals" by blast
  from run g' have st: "fst (snd (load_model listing_fails_env initial_globals)) = initial_globals"
    by simp
  from after g' have nx: "fst (load_model cold_env initial_globals) =
         (case fst (load_model_from_s3 cold_env) of Inl e' \<Rightarrow> Inl e' | Inr nlp \<Rightarrow> Inr (Some nlp))"
    by blast
  show ?thesis unfolding st using r1 r2 r3 r4 nl nx by blast
qed


text \<open>
  C3. The claim is that every failure of the provisioner leaves the load state not
  loaded. The globals are left as they were, so the flag is left set where it was set
  before. A start with the marker file present sets the flag and leaves the handle empty
  (C1); when the marker file is gone at the next call and the remote listing raises,
  \<^verbatim>\<open>load_model\<close> stops at the listing and raises that exception again, and the flag
  is still set.
\<close>

theorem failed_load_leaves_flag_set:
  "fst (snd (load_model warm_env initial_globals)) = \<lparr>nlp_model = None, model_loaded = True\<rparr>
   \<and> fst (load_model listing_fails_env \<lparr>nlp_model = None, model_loaded = True\<rparr>) =
       Inl (PyExc ''ClientError'' ''AccessDenied'')
   \<and> fst (snd (load_model listing_fails_env \<lparr>nlp_model = None, model_loaded = True\<rparr>)) =
       \<lparr>nlp_model = None, model_loaded = True\<rparr>
   \<and> snd (snd (load_model listing_fails_env \<lparr>nlp_model = None, model_loaded = True\<rparr>)) =
       [PathExists ''/tmp/toxic_chat_model_full/config.cfg'',
        Print ''Model not found locally, downloading from S3...'',
        Boto3Client, Mkdtemp, Makedirs ''/tmp/tmpa1b2c3d4/toxic_chat_model_full'',
        ListObjects ''toxic-chat-classifier'' ''toxic_chat_model_full/'',
        Print ''Error loading model: AccessDenied'',
        Print ''Error loading model: AccessDenied'']"
proof -
  let ?g = "\<lparr>nlp_model = None, model_loaded = True\<rparr>"
  have m: "marker_file = ''/tmp/toxic_chat_model_full/config.cfg''"
    by (simp add: marker_file_def probe_dir_def os_path_join_def startswith_def endswith_def)
  have a: "fst (snd (load_model warm_env initial_globals)) = ?g"
    by (simp add: load_model_def initial_globals_def m warm_env_def)
  have s: "fst (load_model_from_s3 listing_fails_env) = Inl (PyExc ''ClientError'' ''AccessDenied'')"
    by (simp add: load_model_from_s3_def listing_fails_env_def cold_env_def fetch_and_load_def
                  Let_def)
  have n: "\<not> path_exists listing_fails_env marker_file"
    by (simp add: listing_fails_env_def cold_env_def)
  have b: "fst (load_model listing_fails_env ?g) = Inl (PyExc ''ClientError'' ''AccessDenied'')"
    using s n by (auto simp: load_model_def split: prod.splits sum.splits)
  have c: "fst (snd (load_model listing_fails_env ?g)) = ?g"
    using s n by (auto simp: load_model_def split: prod.splits sum.splits)
  have d: "snd (snd (load_model listing_fails_env ?g)) =
       [PathExists ''/tmp/toxic_chat_model_full/config.cfg'',
        Print ''Model not found locally, downloading from S3...'',
        Boto3Client, Mkdtemp, Makedirs ''/tmp/tmpa1b2c3d4/toxic_chat_model_full'',
        ListObjects ''toxic-chat-classifier'' ''toxic_chat_model_full/'',
        Print ''Error loading model: AccessDenied'',
        Print ''Error loading model: AccessDenied'']"
    by code_simp
  from a b c d show ?thesis by blast
qed

end
